theory Spec2Isabelle
  imports Main "HOL-Library.Word" "HOL-Library.Multiset" "HOL-Library.Sublist"
begin

section \<open>The persisted schema\<close>

text \<open>
  The migration \<^verbatim>\<open>V1___initial_schema.sql\<close> declares two tables. A row of a table is a
  record with one field per column; a column that the schema leaves nullable holds an
  \<open>option\<close>, with \<open>None\<close> for SQL's NULL. Both tables call their key \<^verbatim>\<open>id\<close>; the fields
  carry the table's name to tell them apart.

  \<^item> \<^verbatim>\<open>tasks(id SERIAL PRIMARY KEY, name TEXT NOT NULL, completed BOOLEAN)\<close>, with
    \<^verbatim>\<open>completed\<close> defaulting to false;
  \<^item> \<^verbatim>\<open>work_entries(id SERIAL PRIMARY KEY, task_id INTEGER REFERENCES tasks(id),
    started_on TIMESTAMP WITH TIME ZONE, finished_on TIMESTAMP WITH TIME ZONE)\<close>.

  \<^verbatim>\<open>SERIAL\<close> and \<^verbatim>\<open>INTEGER\<close> columns hold four-byte signed integers: a 32-bit word, read
  with \<open>sint\<close>. A timestamp is a count of microseconds, and so is the interval between
  two of them.
\<close>

type_synonym int4 = "32 word"
type_synonym timestamptz = int
type_synonym interval = int

record task_row =
  tasks_id :: int4
  name :: string
  completed :: "bool option"

record work_entry_row =
  work_entries_id :: int4
  task_id :: "int4 option"
  started_on :: "timestamptz option"
  finished_on :: "timestamptz option"

text \<open>
  The state of the database: the rows of each table, in the order a scan returns them,
  and the last value handed out by the sequence behind each \<^verbatim>\<open>SERIAL\<close> column. Such a
  sequence counts up from 1 and stops at 2147483647, the largest value of its column.
\<close>

record database =
  tasks :: "task_row list"
  work_entries :: "work_entry_row list"
  tasks_id_seq :: int
  work_entries_id_seq :: int

definition int4_max :: int where
  "int4_max = 2147483647"

definition int4_min :: int where
  "int4_min = - 2147483648"

text \<open>The database as the migration leaves it: both tables empty, no id handed out.\<close>

definition initial_schema :: database where
  "initial_schema =
     \<lparr>tasks = [], work_entries = [], tasks_id_seq = 0, work_entries_id_seq = 0\<rparr>"

text \<open>
  The service functions catch nothing: an error of a statement reaches the caller as a
  rejected promise. The errors are those the schema makes a statement of the services
  raise, named as the database names them:

  \<^item> \<^verbatim>\<open>22003\<close>, a number bound to an \<^verbatim>\<open>INTEGER\<close> parameter is outside its range;
  \<^item> \<^verbatim>\<open>22021\<close>, a text bound to a parameter holds the character U+0000;
  \<^item> \<^verbatim>\<open>2200H\<close>, a sequence is asked for a value beyond its maximum;
  \<^item> \<^verbatim>\<open>23505\<close>, a row would repeat a primary key;
  \<^item> \<^verbatim>\<open>23503\<close>, a row would reference a task that is not there.

  An outcome pairs what a data-changing call gave (the error, or the value) with the
  database afterwards. A parameter is checked when it is bound, before the statement
  runs; a sequence that is spent hands out nothing; an \<^verbatim>\<open>INSERT\<close> that a key refuses
  stores no row, but the id it drew from the sequence stays drawn.
\<close>

datatype sql_error =
    NumericValueOutOfRange
  | CharacterNotInRepertoire
  | SequenceGeneratorLimitExceeded
  | UniqueViolation
  | ForeignKeyViolation

type_synonym 'a outcome = "(sql_error + 'a) \<times> database"

section \<open>The statements\<close>

text \<open>
  Each tagged query of the two services, as a function of the database. A data-changing
  statement gives the number of rows it touched. The services pass what they are given
  straight into the query: an id is any integer the caller has, and is bound to a
  parameter of the type of the \<^verbatim>\<open>INTEGER\<close> column it is compared with or stored in; a name
  is any string of characters.
\<close>

definition int4_range :: "int \<Rightarrow> bool" where
  "int4_range i \<longleftrightarrow> int4_min \<le> i \<and> i \<le> int4_max"

text \<open>\<^verbatim>\<open>UPDATE tasks SET completed = true WHERE id = ${ id }\<close>\<close>

definition update_tasks_completed :: "int \<Rightarrow> database \<Rightarrow> nat outcome" where
  "update_tasks_completed i db =
     (if \<not> int4_range i then (Inl NumericValueOutOfRange, db)
      else
        (Inr (length (filter (\<lambda>r. sint (tasks_id r) = i) (tasks db))),
         db\<lparr>tasks :=
              map (\<lambda>r. if sint (tasks_id r) = i then r\<lparr>completed := Some True\<rparr> else r)
                (tasks db)\<rparr>))"

text \<open>
  \<^verbatim>\<open>INSERT INTO tasks (name) VALUES (${ name })\<close>: the id is the sequence's next value,
  \<^verbatim>\<open>completed\<close> takes the schema's default, and the primary key refuses an id that is
  already there.
\<close>

definition insert_tasks :: "string \<Rightarrow> database \<Rightarrow> nat outcome" where
  "insert_tasks n db =
     (if CHR 0x00 \<in> set n then (Inl CharacterNotInRepertoire, db)
      else if int4_max \<le> tasks_id_seq db then (Inl SequenceGeneratorLimitExceeded, db)
      else
        (let i = tasks_id_seq db + 1;
             db1 = db\<lparr>tasks_id_seq := i\<rparr>
         in if word_of_int i \<in> set (map tasks_id (tasks db)) then (Inl UniqueViolation, db1)
            else (Inr 1,
                  db1\<lparr>tasks := tasks db @
                    [\<lparr>tasks_id = word_of_int i, name = n, completed = Some False\<rparr>]\<rparr>)))"

text \<open>\<^verbatim>\<open>SELECT * FROM tasks WHERE completed = false\<close>: a NULL flag does not compare equal.\<close>

definition select_tasks_not_completed :: "database \<Rightarrow> task_row list" where
  "select_tasks_not_completed db = filter (\<lambda>r. completed r = Some False) (tasks db)"

text \<open>\<^verbatim>\<open>SELECT * FROM tasks WHERE id = ${ id }\<close>\<close>

definition select_tasks_by_id :: "int \<Rightarrow> database \<Rightarrow> sql_error + task_row list" where
  "select_tasks_by_id i db =
     (if \<not> int4_range i then Inl NumericValueOutOfRange
      else Inr (filter (\<lambda>r. sint (tasks_id r) = i) (tasks db)))"

text \<open>
  \<^verbatim>\<open>INSERT INTO work_entries (task_id, started_on) VALUES (${taskId}, NOW())\<close>: the id
  is the sequence's next value, \<^verbatim>\<open>finished_on\<close> stays NULL, the primary key refuses an
  id that is already there and the foreign key refuses a task id that no task row has.
\<close>

definition insert_work_entries :: "int \<Rightarrow> timestamptz \<Rightarrow> database \<Rightarrow> nat outcome" where
  "insert_work_entries taskId now db =
     (if \<not> int4_range taskId then (Inl NumericValueOutOfRange, db)
      else if int4_max \<le> work_entries_id_seq db then (Inl SequenceGeneratorLimitExceeded, db)
      else
        (let i = work_entries_id_seq db + 1;
             db1 = db\<lparr>work_entries_id_seq := i\<rparr>
         in if word_of_int i \<in> set (map work_entries_id (work_entries db))
            then (Inl UniqueViolation, db1)
            else if taskId \<notin> set (map (\<lambda>r. sint (tasks_id r)) (tasks db))
            then (Inl ForeignKeyViolation, db1)
            else (Inr 1,
                  db1\<lparr>work_entries := work_entries db @
                    [\<lparr>work_entries_id = word_of_int i, task_id = Some (word_of_int taskId),
                      started_on = Some now, finished_on = None\<rparr>]\<rparr>)))"

text \<open>
  \<^verbatim>\<open>SELECT * FROM work_entries WHERE task_id = ${ taskId } AND finished_on IS NULL\<close>: a
  NULL task id does not compare equal.
\<close>

definition select_work_entries_current ::
    "int \<Rightarrow> database \<Rightarrow> sql_error + work_entry_row list" where
  "select_work_entries_current taskId db =
     (if \<not> int4_range taskId then Inl NumericValueOutOfRange
      else Inr (filter (\<lambda>e. map_option sint (task_id e) = Some taskId \<and> finished_on e = None)
                  (work_entries db)))"

text \<open>\<^verbatim>\<open>UPDATE work_entries SET finished_on = NOW() WHERE id = ${ id }\<close>\<close>

definition update_work_entries_finished :: "int \<Rightarrow> timestamptz \<Rightarrow> database \<Rightarrow> nat outcome" where
  "update_work_entries_finished i now db =
     (if \<not> int4_range i then (Inl NumericValueOutOfRange, db)
      else
        (Inr (length (filter (\<lambda>e. sint (work_entries_id e) = i) (work_entries db))),
         db\<lparr>work_entries :=
              map (\<lambda>e. if sint (work_entries_id e) = i then e\<lparr>finished_on := Some now\<rparr> else e)
                (work_entries db)\<rparr>))"

text \<open>
  \<^verbatim>\<open>SELECT SUM(finished_on - started_on) AS total_time FROM work_entries
  WHERE task_id = ${ taskId } AND finished_on IS NOT NULL\<close>.
  The difference of two timestamps is NULL when one of them is; \<^verbatim>\<open>SUM\<close> passes over the
  NULLs among its inputs and is NULL itself when nothing is left to add. An aggregate
  without \<^verbatim>\<open>GROUP BY\<close> gives one row, whatever the table holds.
\<close>

definition timestamptz_minus :: "timestamptz option \<Rightarrow> timestamptz option \<Rightarrow> interval option" where
  "timestamptz_minus a b =
     (case a of None \<Rightarrow> None
      | Some x \<Rightarrow> (case b of None \<Rightarrow> None | Some y \<Rightarrow> Some (x - y)))"

definition sql_sum :: "interval option list \<Rightarrow> interval option" where
  "sql_sum vs =
     (case List.map_filter (\<lambda>v. v) vs of
        [] \<Rightarrow> None
      | w # ws \<Rightarrow> Some (sum_list (w # ws)))"

record total_time_row =
  total_time :: "interval option"

definition select_total_time :: "int \<Rightarrow> database \<Rightarrow> sql_error + total_time_row list" where
  "select_total_time taskId db =
     (if \<not> int4_range taskId then Inl NumericValueOutOfRange
      else Inr
        [\<lparr>total_time =
            sql_sum (map (\<lambda>e. timestamptz_minus (finished_on e) (started_on e))
              (filter (\<lambda>e. map_option sint (task_id e) = Some taskId \<and> finished_on e \<noteq> None)
                (work_entries db)))\<rparr>])"

section \<open>taskService\<close>

text \<open>
  A function that awaits a data-changing statement and returns nothing: the statement's
  row count is dropped, its error is passed on.
\<close>

definition discard_count :: "nat outcome \<Rightarrow> unit outcome" where
  "discard_count out =
     (case out of
        (Inl err, db') \<Rightarrow> (Inl err, db')
      | (Inr _, db') \<Rightarrow> (Inr (), db'))"

definition completeById :: "int \<Rightarrow> database \<Rightarrow> unit outcome" where
  "completeById i db = discard_count (update_tasks_completed i db)"

definition create :: "string \<Rightarrow> database \<Rightarrow> unit outcome" where
  "create n db = discard_count (insert_tasks n db)"

definition findAllNonCompletedTasks :: "database \<Rightarrow> task_row list" where
  "findAllNonCompletedTasks db = select_tasks_not_completed db"

text \<open>
  \<^verbatim>\<open>findById\<close> returns the first row of its query, or the object
  \<^verbatim>\<open>{ id: 0, name: "Unknown" }\<close>, which has the two properties written and no
  \<^verbatim>\<open>completed\<close>; an error of the query is passed on.
\<close>

datatype found_task = TaskRow task_row | Placeholder int string

definition findById :: "int \<Rightarrow> database \<Rightarrow> sql_error + found_task" where
  "findById i db =
     (case select_tasks_by_id i db of
        Inl err \<Rightarrow> Inl err
      | Inr rows \<Rightarrow>
          Inr (case rows of
                 r # _ \<Rightarrow> TaskRow r
               | [] \<Rightarrow> Placeholder 0 ''Unknown''))"

section \<open>workEntryService\<close>

definition createWorkEntry :: "int \<Rightarrow> timestamptz \<Rightarrow> database \<Rightarrow> unit outcome" where
  "createWorkEntry taskId now db = discard_count (insert_work_entries taskId now db)"

text \<open>
  \<^verbatim>\<open>findCurrentWorkEntry\<close> returns the first row of its query, or \<^verbatim>\<open>false\<close>; an error of the
  query is passed on.
\<close>

datatype current_work_entry = WorkEntryRow work_entry_row | JsFalse

definition findCurrentWorkEntry :: "int \<Rightarrow> database \<Rightarrow> sql_error + current_work_entry" where
  "findCurrentWorkEntry taskId db =
     (case select_work_entries_current taskId db of
        Inl err \<Rightarrow> Inl err
      | Inr rows \<Rightarrow>
          Inr (case rows of
                 e # _ \<Rightarrow> WorkEntryRow e
               | [] \<Rightarrow> JsFalse))"

definition finishWorkEntry :: "int \<Rightarrow> timestamptz \<Rightarrow> database \<Rightarrow> unit outcome" where
  "finishWorkEntry i now db = discard_count (update_work_entries_finished i now db)"

text \<open>
  \<^verbatim>\<open>calculateTotalTime\<close> returns \<^verbatim>\<open>rows[0].total_time\<close> when there is a first row and
  its \<^verbatim>\<open>total_time\<close> is truthy, and the number 0 otherwise. NULL is falsy, and so is an
  interval of no microseconds. An error of the query is passed on.
\<close>

definition calculateTotalTime :: "int \<Rightarrow> database \<Rightarrow> sql_error + interval" where
  "calculateTotalTime taskId db =
     (case select_total_time taskId db of
        Inl err \<Rightarrow> Inl err
      | Inr rows \<Rightarrow>
          Inr (case rows of
                 [] \<Rightarrow> 0
               | r # _ \<Rightarrow>
                   (case total_time r of
                      None \<Rightarrow> 0
                    | Some d \<Rightarrow> (if d \<noteq> 0 then d else 0))))"

section \<open>Consistent databases\<close>

text \<open>
  What the schema's constraints and the sequences keep true of a database that only the
  two services write to: the keys of a table are distinct, none of them lies beyond the
  last value its sequence handed out, that last value lies between 0, when nothing has
  been handed out, and the sequence's maximum, and a work entry's task id, unless NULL,
  is the id of a task row.
\<close>

definition db_inv :: "database \<Rightarrow> bool" where
  "db_inv db \<longleftrightarrow>
     distinct (map tasks_id (tasks db)) \<and>
     list_all (\<lambda>r. sint (tasks_id r) \<le> tasks_id_seq db) (tasks db) \<and>
     0 \<le> tasks_id_seq db \<and> tasks_id_seq db \<le> int4_max \<and>
     distinct (map work_entries_id (work_entries db)) \<and>
     list_all (\<lambda>e. sint (work_entries_id e) \<le> work_entries_id_seq db) (work_entries db) \<and>
     0 \<le> work_entries_id_seq db \<and> work_entries_id_seq db \<le> int4_max \<and>
     list_all (\<lambda>e. case task_id e of None \<Rightarrow> True
                  | Some t \<Rightarrow> t \<in> set (map tasks_id (tasks db))) (work_entries db)"

text \<open>
  The databases the services can produce: the one the migration leaves, and whatever a
  data-changing call makes of one of them, whether it succeeds or fails.
\<close>

inductive reachable :: "database \<Rightarrow> bool" where
  migrated: "reachable initial_schema"
| created: "reachable db \<Longrightarrow> reachable (snd (create n db))"
| completed: "reachable db \<Longrightarrow> reachable (snd (completeById i db))"
| entry_created: "reachable db \<Longrightarrow> reachable (snd (createWorkEntry taskId now db))"
| entry_finished: "reachable db \<Longrightarrow> reachable (snd (finishWorkEntry i now db))"

section \<open>Sample databases\<close>

text \<open>
  Three tasks, the second completed and the third with an empty name; task 1 has two
  closed work entries and an open one, task 2 a closed one, task 3 none.
\<close>

definition example_db :: database where
  "example_db =
     \<lparr>tasks =
        [\<lparr>tasks_id = 1, name = ''Write report'', completed = Some False\<rparr>,
         \<lparr>tasks_id = 2, name = ''Review'', completed = Some True\<rparr>,
         \<lparr>tasks_id = 3, name = '''', completed = Some False\<rparr>],
      work_entries =
        [\<lparr>work_entries_id = 1, task_id = Some 1, started_on = Some 100, finished_on = Some 160\<rparr>,
         \<lparr>work_entries_id = 2, task_id = Some 2, started_on = Some 150, finished_on = Some 180\<rparr>,
         \<lparr>work_entries_id = 3, task_id = Some 1, started_on = Some 200, finished_on = Some 210\<rparr>,
         \<lparr>work_entries_id = 4, task_id = Some 1, started_on = Some 300, finished_on = None\<rparr>],
      tasks_id_seq = 3,
      work_entries_id_seq = 4\<rparr>"

text \<open>The fresh database after one call of \<^verbatim>\<open>create\<close>.\<close>

definition one_task :: database where
  "one_task = snd (create ''Write report'' initial_schema)"

text \<open>
  The fresh database after \<^verbatim>\<open>create\<close> and two calls of \<^verbatim>\<open>createWorkEntry\<close> for the task
  it made, with no \<^verbatim>\<open>finishWorkEntry\<close> between them.
\<close>

definition two_open_entries :: database where
  "two_open_entries =
     snd (createWorkEntry 1 200
       (snd (createWorkEntry 1 100
         (snd (create ''Write report'' initial_schema)))))"

text \<open>
  A sequence runs out after 2147483647 draws. \<^verbatim>\<open>create\<close> draws one id for each task it
  stores; \<^verbatim>\<open>createWorkEntry\<close> draws one for each call that reaches the table, also when
  the foreign key then refuses the row. The two databases below are what that many calls
  leave: 2147483647 calls of \<^verbatim>\<open>create\<close> on the fresh database, and 2147483647 calls of
  \<^verbatim>\<open>createWorkEntry(2)\<close> on the database whose only task has id 1.
\<close>

primrec create_times :: "nat \<Rightarrow> database \<Rightarrow> database" where
  "create_times 0 db = db"
| "create_times (Suc k) db = snd (create ''Write report'' (create_times k db))"

primrec createWorkEntry_times :: "nat \<Rightarrow> int \<Rightarrow> database \<Rightarrow> database" where
  "createWorkEntry_times 0 taskId db = db"
| "createWorkEntry_times (Suc k) taskId db =
     snd (createWorkEntry taskId 0 (createWorkEntry_times k taskId db))"

definition tasks_id_seq_spent :: database where
  "tasks_id_seq_spent = create_times 2147483647 initial_schema"

definition work_entries_id_seq_spent :: database where
  "work_entries_id_seq_spent = createWorkEntry_times 2147483647 2 one_task"

section \<open>Basic facts\<close>

lemma discard_count_Inr [simp]: "discard_count (Inr n, db) = (Inr (), db)"
  by (simp add: discard_count_def)

lemma discard_count_Inl [simp]: "discard_count (Inl err, db) = (Inl err, db)"
  by (simp add: discard_count_def)

text \<open>An id read from a row is in the range of \<^verbatim>\<open>INTEGER\<close>, and an integer in that range is
  the reading of the word it is stored as.\<close>

lemma int4_range_sint [simp]: "int4_range (sint (w :: int4))"
  using sint_ge [of w] sint_lt [of w] by (simp add: int4_range_def int4_min_def int4_max_def)

lemma sint_int4_of_int: "int4_range i \<Longrightarrow> sint (word_of_int i :: int4) = i"
  unfolding int4_range_def int4_min_def int4_max_def
  by (simp add: signed_of_int signed_take_bit_int_eq_self)

lemma int4_range_numeral [simp]:
  "int4_range 0" "int4_range 1"
  by (simp_all add: int4_range_def int4_min_def int4_max_def)

text \<open>
  The two \<^verbatim>\<open>UPDATE\<close>s raise nothing once their parameter is bound: no constraint looks at
  the column they set.
\<close>

lemma completeById_eq:
  "int4_range i \<Longrightarrow>
   completeById i db =
     (Inr (), db\<lparr>tasks :=
        map (\<lambda>r. if sint (tasks_id r) = i then r\<lparr>completed := Some True\<rparr> else r) (tasks db)\<rparr>)"
  by (simp add: completeById_def update_tasks_completed_def)

lemma completeById_out_of_range:
  "\<not> int4_range i \<Longrightarrow> completeById i db = (Inl NumericValueOutOfRange, db)"
  by (simp add: completeById_def update_tasks_completed_def)

lemma finishWorkEntry_eq:
  "int4_range i \<Longrightarrow>
   finishWorkEntry i now db =
     (Inr (), db\<lparr>work_entries :=
        map (\<lambda>e. if sint (work_entries_id e) = i then e\<lparr>finished_on := Some now\<rparr> else e)
          (work_entries db)\<rparr>)"
  by (simp add: finishWorkEntry_def update_work_entries_finished_def)

lemma finishWorkEntry_out_of_range:
  "\<not> int4_range i \<Longrightarrow> finishWorkEntry i now db = (Inl NumericValueOutOfRange, db)"
  by (simp add: finishWorkEntry_def update_work_entries_finished_def)

text \<open>The head of a filtered list is the first element of the list that passes.\<close>

lemma filter_first_index:
  "filter P xs = y # ys \<Longrightarrow>
     \<exists>k<length xs. xs ! k = y \<and> P y \<and> (\<forall>j<k. \<not> P (xs ! j))"
proof (induction xs)
  case Nil
  then show ?case by simp
next
  case (Cons x xs)
  show ?case
  proof (cases "P x")
    case True
    with Cons.prems have "x = y" by simp
    with True show ?thesis by (intro exI [of _ 0]) simp
  next
    case False
    with Cons.prems have "filter P xs = y # ys" by simp
    from Cons.IH [OF this] obtain k where k: "k < length xs" "xs ! k = y" "P y"
      "\<forall>j<k. \<not> P (xs ! j)" by blast
    have "\<forall>j<Suc k. \<not> P ((x # xs) ! j)"
      using False k(4) by (auto simp: less_Suc_eq_0_disj)
    with k show ?thesis by (intro exI [of _ "Suc k"]) simp
  qed
qed

subsection \<open>The invariant holds from the migration on\<close>

lemma db_inv_initial_schema: "db_inv initial_schema"
  by (simp add: db_inv_def initial_schema_def int4_max_def)

lemma next_tasks_id_fresh:
  assumes "db_inv db" and "tasks_id_seq db < int4_max"
  shows "word_of_int (tasks_id_seq db + 1) \<notin> set (map tasks_id (tasks db))"
proof
  assume "word_of_int (tasks_id_seq db + 1) \<in> set (map tasks_id (tasks db))"
  then obtain r where r: "r \<in> set (tasks db)" "tasks_id r = word_of_int (tasks_id_seq db + 1)"
    by auto
  have "int4_range (tasks_id_seq db + 1)"
    using assms by (simp add: db_inv_def int4_range_def int4_min_def int4_max_def)
  from sint_int4_of_int [OF this] have "sint (tasks_id r) = tasks_id_seq db + 1"
    using r(2) by simp
  moreover have "sint (tasks_id r) \<le> tasks_id_seq db"
    using assms(1) r(1) by (simp add: db_inv_def list_all_iff)
  ultimately show False by simp
qed

lemma next_work_entries_id_fresh:
  assumes "db_inv db" and "work_entries_id_seq db < int4_max"
  shows "word_of_int (work_entries_id_seq db + 1) \<notin> set (map work_entries_id (work_entries db))"
proof
  assume "word_of_int (work_entries_id_seq db + 1) \<in> set (map work_entries_id (work_entries db))"
  then obtain e where e: "e \<in> set (work_entries db)"
      "work_entries_id e = word_of_int (work_entries_id_seq db + 1)"
    by auto
  have "int4_range (work_entries_id_seq db + 1)"
    using assms by (simp add: db_inv_def int4_range_def int4_min_def int4_max_def)
  from sint_int4_of_int [OF this] have "sint (work_entries_id e) = work_entries_id_seq db + 1"
    using e(2) by simp
  moreover have "sint (work_entries_id e) \<le> work_entries_id_seq db"
    using assms(1) e(1) by (simp add: db_inv_def list_all_iff)
  ultimately show False by simp
qed

lemma create_eq:
  assumes "db_inv db" and "tasks_id_seq db < int4_max" and "CHR 0x00 \<notin> set n"
  shows "create n db =
     (Inr (), db\<lparr>tasks_id_seq := tasks_id_seq db + 1,
                 tasks := tasks db @
                   [\<lparr>tasks_id = word_of_int (tasks_id_seq db + 1), name = n,
                     completed = Some False\<rparr>]\<rparr>)"
  using next_tasks_id_fresh [OF assms(1,2)] assms(2,3)
  by (simp add: create_def insert_tasks_def Let_def)

lemma create_spent:
  "CHR 0x00 \<notin> set n \<Longrightarrow> int4_max \<le> tasks_id_seq db \<Longrightarrow>
   create n db = (Inl SequenceGeneratorLimitExceeded, db)"
  by (simp add: create_def insert_tasks_def)

lemma create_refused_text:
  "CHR 0x00 \<in> set n \<Longrightarrow> create n db = (Inl CharacterNotInRepertoire, db)"
  by (simp add: create_def insert_tasks_def)

lemma createWorkEntry_eq:
  assumes "db_inv db" and "work_entries_id_seq db < int4_max"
    and "taskId \<in> set (map (\<lambda>r. sint (tasks_id r)) (tasks db))"
  shows "createWorkEntry taskId now db =
     (Inr (), db\<lparr>work_entries_id_seq := work_entries_id_seq db + 1,
                 work_entries := work_entries db @
                   [\<lparr>work_entries_id = word_of_int (work_entries_id_seq db + 1),
                     task_id = Some (word_of_int taskId),
                     started_on = Some now, finished_on = None\<rparr>]\<rparr>)"
proof -
  have "int4_range taskId"
    using assms(3) by auto
  then show ?thesis
    using next_work_entries_id_fresh [OF assms(1,2)] assms(2,3)
    by (simp add: createWorkEntry_def insert_work_entries_def Let_def)
qed

lemma createWorkEntry_unknown_task:
  assumes "db_inv db" and "work_entries_id_seq db < int4_max" and "int4_range taskId"
    and "taskId \<notin> set (map (\<lambda>r. sint (tasks_id r)) (tasks db))"
  shows "createWorkEntry taskId now db =
     (Inl ForeignKeyViolation, db\<lparr>work_entries_id_seq := work_entries_id_seq db + 1\<rparr>)"
  using next_work_entries_id_fresh [OF assms(1,2)] assms(2,3,4)
  by (simp add: createWorkEntry_def insert_work_entries_def Let_def)

lemma createWorkEntry_spent:
  "int4_range taskId \<Longrightarrow> int4_max \<le> work_entries_id_seq db \<Longrightarrow>
   createWorkEntry taskId now db = (Inl SequenceGeneratorLimitExceeded, db)"
  by (simp add: createWorkEntry_def insert_work_entries_def)

lemma createWorkEntry_out_of_range:
  "\<not> int4_range taskId \<Longrightarrow> createWorkEntry taskId now db = (Inl NumericValueOutOfRange, db)"
  by (simp add: createWorkEntry_def insert_work_entries_def)

lemma tasks_id_update_completed:
  "tasks_id (if c then r\<lparr>completed := v\<rparr> else r) = tasks_id r"
  by simp

lemma work_entries_id_update_finished:
  "work_entries_id (if c then e\<lparr>finished_on := v\<rparr> else e) = work_entries_id e"
  by simp

lemma db_inv_create: "db_inv db \<Longrightarrow> db_inv (snd (create n db))"
proof -
  assume inv: "db_inv db"
  consider (refused) "CHR 0x00 \<in> set n"
    | (spent) "CHR 0x00 \<notin> set n" "int4_max \<le> tasks_id_seq db"
    | (stored) "CHR 0x00 \<notin> set n" "tasks_id_seq db < int4_max"
    by fastforce
  then show ?thesis
  proof cases
    case refused
    with inv show ?thesis by (simp add: create_refused_text)
  next
    case spent
    with inv show ?thesis by (simp add: create_spent)
  next
    case stored
    have rng: "int4_range (tasks_id_seq db + 1)"
      using inv stored(2) by (simp add: db_inv_def int4_range_def int4_min_def int4_max_def)
    from inv stored(2) next_tasks_id_fresh [OF inv stored(2)] sint_int4_of_int [OF rng]
    show ?thesis
      by (simp add: create_eq [OF inv stored(2,1)])
        (auto simp: db_inv_def list_all_iff split: option.splits)
  qed
qed

lemma db_inv_completeById: "db_inv db \<Longrightarrow> db_inv (snd (completeById i db))"
proof (cases "int4_range i")
  case True
  assume "db_inv db"
  then show ?thesis
    unfolding completeById_eq [OF True] db_inv_def
    by (auto simp: comp_def tasks_id_update_completed list_all_iff image_iff
        split: option.splits)
next
  case False
  assume "db_inv db"
  then show ?thesis by (simp add: completeById_out_of_range [OF False])
qed

lemma db_inv_createWorkEntry: "db_inv db \<Longrightarrow> db_inv (snd (createWorkEntry t now db))"
proof -
  assume inv: "db_inv db"
  consider (range) "\<not> int4_range t"
    | (spent) "int4_range t" "int4_max \<le> work_entries_id_seq db"
    | (unknown) "int4_range t" "work_entries_id_seq db < int4_max"
        "t \<notin> set (map (\<lambda>r. sint (tasks_id r)) (tasks db))"
    | (known) "work_entries_id_seq db < int4_max"
        "t \<in> set (map (\<lambda>r. sint (tasks_id r)) (tasks db))"
    by fastforce
  then show ?thesis
  proof cases
    case range
    with inv show ?thesis by (simp add: createWorkEntry_out_of_range)
  next
    case spent
    with inv show ?thesis by (simp add: createWorkEntry_spent)
  next
    case unknown
    with inv show ?thesis
      by (simp add: createWorkEntry_unknown_task)
        (auto simp: db_inv_def list_all_iff split: option.splits)
  next
    case known
    have rng: "int4_range (work_entries_id_seq db + 1)"
      using inv known(1) by (simp add: db_inv_def int4_range_def int4_min_def int4_max_def)
    from known(2) obtain r where r: "r \<in> set (tasks db)" "sint (tasks_id r) = t"
      by auto
    then have "word_of_int t = tasks_id r"
      by auto
    with r(1) have fk: "word_of_int t \<in> tasks_id ` set (tasks db)"
      by auto
    from inv known(1) next_work_entries_id_fresh [OF inv known(1)] sint_int4_of_int [OF rng] fk
    show ?thesis
      by (simp add: createWorkEntry_eq [OF inv known])
        (auto simp: db_inv_def list_all_iff split: option.splits)
  qed
qed

lemma db_inv_finishWorkEntry: "db_inv db \<Longrightarrow> db_inv (snd (finishWorkEntry i now db))"
proof (cases "int4_range i")
  case True
  assume "db_inv db"
  then show ?thesis
    unfolding finishWorkEntry_eq [OF True] db_inv_def
    by (auto simp: comp_def work_entries_id_update_finished list_all_iff split: option.splits)
next
  case False
  assume "db_inv db"
  then show ?thesis by (simp add: finishWorkEntry_out_of_range [OF False])
qed

lemma reachable_db_inv: "reachable db \<Longrightarrow> db_inv db"
  by (induction rule: reachable.induct)
    (simp_all add: db_inv_initial_schema db_inv_create db_inv_completeById
      db_inv_createWorkEntry db_inv_finishWorkEntry)

subsection \<open>The sample databases, written out\<close>

lemma one_task_eq:
  "one_task =
     \<lparr>tasks = [\<lparr>tasks_id = 1, name = ''Write report'', completed = Some False\<rparr>],
      work_entries = [], tasks_id_seq = 1, work_entries_id_seq = 0\<rparr>"
  by (simp add: one_task_def create_def insert_tasks_def initial_schema_def Let_def int4_max_def)

lemma two_open_entries_eq:
  "two_open_entries =
     \<lparr>tasks = [\<lparr>tasks_id = 1, name = ''Write report'', completed = Some False\<rparr>],
      work_entries =
        [\<lparr>work_entries_id = 1, task_id = Some 1, started_on = Some 100, finished_on = None\<rparr>,
         \<lparr>work_entries_id = 2, task_id = Some 1, started_on = Some 200, finished_on = None\<rparr>],
      tasks_id_seq = 1, work_entries_id_seq = 2\<rparr>"
  by (simp add: two_open_entries_def create_def insert_tasks_def initial_schema_def Let_def
      createWorkEntry_def insert_work_entries_def int4_max_def)

lemma reachable_one_task: "reachable one_task"
  unfolding one_task_def by (intro reachable.intros)

lemma reachable_two_open_entries: "reachable two_open_entries"
  unfolding two_open_entries_def by (intro reachable.intros)

lemma db_inv_example_db: "db_inv example_db"
  by (simp add: db_inv_def example_db_def int4_max_def)

lemma db_inv_one_task: "db_inv one_task"
  by (rule reachable_db_inv [OF reachable_one_task])

subsection \<open>Running a sequence out\<close>

lemma reachable_create_times: "reachable db \<Longrightarrow> reachable (create_times k db)"
  by (induction k) (auto intro: reachable.intros)

lemma reachable_createWorkEntry_times:
  "reachable db \<Longrightarrow> reachable (createWorkEntry_times k taskId db)"
  by (induction k) (auto intro: reachable.intros)

lemma tasks_id_seq_create_times:
  "db_inv db \<Longrightarrow> tasks_id_seq db + int k \<le> int4_max \<Longrightarrow>
   db_inv (create_times k db) \<and> tasks_id_seq (create_times k db) = tasks_id_seq db + int k"
proof (induction k)
  case 0
  then show ?case by simp
next
  case (Suc k)
  then have ih: "db_inv (create_times k db)"
      "tasks_id_seq (create_times k db) = tasks_id_seq db + int k"
    by simp_all
  with Suc.prems(2) have lt: "tasks_id_seq (create_times k db) < int4_max"
    by simp
  have "CHR 0x00 \<notin> set ''Write report''"
    by simp
  from create_eq [OF ih(1) lt this] ih(2) db_inv_create [OF ih(1), of "''Write report''"]
  show ?case by simp
qed

lemma createWorkEntry_times_unknown_task:
  "db_inv db \<Longrightarrow> int4_range taskId \<Longrightarrow>
   taskId \<notin> set (map (\<lambda>r. sint (tasks_id r)) (tasks db)) \<Longrightarrow>
   work_entries_id_seq db + int k \<le> int4_max \<Longrightarrow>
   createWorkEntry_times k taskId db =
     db\<lparr>work_entries_id_seq := work_entries_id_seq db + int k\<rparr>"
proof (induction k)
  case 0
  then show ?case by simp
next
  case (Suc k)
  let ?d = "db\<lparr>work_entries_id_seq := work_entries_id_seq db + int k\<rparr>"
  from Suc have ih: "createWorkEntry_times k taskId db = ?d"
    by simp
  have inv: "db_inv ?d"
    using Suc.prems(1,4) by (auto simp: db_inv_def list_all_iff split: option.splits)
  have lt: "work_entries_id_seq ?d < int4_max"
    using Suc.prems(4) by simp
  have unknown: "taskId \<notin> set (map (\<lambda>r. sint (tasks_id r)) (tasks ?d))"
    using Suc.prems(3) by simp
  from createWorkEntry_unknown_task [OF inv lt Suc.prems(2) unknown, of 0]
  show ?case by (simp add: ih add.assoc)
qed

lemma tasks_id_seq_spent_facts:
  "reachable tasks_id_seq_spent \<and> tasks_id_seq tasks_id_seq_spent = int4_max"
proof -
  have "tasks_id_seq initial_schema + int 2147483647 \<le> int4_max"
    by (simp add: initial_schema_def int4_max_def)
  from tasks_id_seq_create_times [OF db_inv_initial_schema this]
  have "tasks_id_seq tasks_id_seq_spent = int4_max"
    by (simp add: tasks_id_seq_spent_def initial_schema_def int4_max_def)
  moreover have "reachable tasks_id_seq_spent"
    unfolding tasks_id_seq_spent_def
    by (rule reachable_create_times [OF reachable.migrated])
  ultimately show ?thesis by simp
qed

lemma work_entries_id_seq_spent_eq:
  "work_entries_id_seq_spent = one_task\<lparr>work_entries_id_seq := 2147483647\<rparr>"
proof -
  have r: "int4_range 2"
    by (simp add: int4_range_def int4_min_def int4_max_def)
  have u: "2 \<notin> set (map (\<lambda>r. sint (tasks_id r)) (tasks one_task))"
    by (simp add: one_task_eq)
  have b: "work_entries_id_seq one_task + int 2147483647 \<le> int4_max"
    by (simp add: one_task_eq int4_max_def)
  from createWorkEntry_times_unknown_task [OF db_inv_one_task r u b]
  show ?thesis
    by (simp add: work_entries_id_seq_spent_def) (simp add: one_task_eq)
qed

lemma reachable_work_entries_id_seq_spent: "reachable work_entries_id_seq_spent"
  unfolding work_entries_id_seq_spent_def
  by (rule reachable_createWorkEntry_times [OF reachable_one_task])

subsection \<open>The aggregate\<close>

lemma sum_list_non_null:
  "sum_list (List.map_filter (\<lambda>v. v) vs) =
     (\<Sum>v\<leftarrow>vs. case v of None \<Rightarrow> 0 | Some d \<Rightarrow> (d::int))"
  by (induction vs) (auto split: option.splits)

lemma sql_sum_or_zero:
  "(case sql_sum vs of None \<Rightarrow> 0 | Some d \<Rightarrow> if d \<noteq> 0 then d else 0) =
     (\<Sum>v\<leftarrow>vs. case v of None \<Rightarrow> 0 | Some d \<Rightarrow> d)"
proof (cases "List.map_filter (\<lambda>v. v) vs")
  case Nil
  then show ?thesis
    using sum_list_non_null [of vs] by (simp add: sql_sum_def)
next
  case (Cons w ws)
  then show ?thesis
    using sum_list_non_null [of vs] by (simp add: sql_sum_def)
qed

lemma calculateTotalTime_eq:
  "int4_range t \<Longrightarrow>
   calculateTotalTime t db =
     Inr (\<Sum>e\<leftarrow>filter (\<lambda>e. map_option sint (task_id e) = Some t \<and> finished_on e \<noteq> None)
              (work_entries db).
        case timestamptz_minus (finished_on e) (started_on e) of None \<Rightarrow> 0 | Some d \<Rightarrow> d)"
  by (simp add: calculateTotalTime_def select_total_time_def sql_sum_or_zero comp_def)

lemma int4_range_example_ids [simp]:
  "int4_range 2" "int4_range 3" "int4_range 4" "int4_range 9"
  "\<not> int4_range 2147483648"
  by (simp_all add: int4_range_def int4_min_def int4_max_def)

section \<open>taskService: the claims\<close>

text \<open>
  Claim C2, amended. For every id within the range of \<^verbatim>\<open>INTEGER\<close>, \<^verbatim>\<open>findById(id)\<close> returns
  the first task row whose id matches when at least one exists, and the object
  \<^verbatim>\<open>{ id: 0, name: "Unknown" }\<close> when no task row has that id. "First" is spelled out on
  the table: the row returned stands at a position \<open>k\<close>, its id is the one asked for, and
  no row before \<open>k\<close> has that id. An id outside the range is refused when it is bound,
  and \<^verbatim>\<open>findById\<close> passes the error on.
\<close>

theorem findById_first_match_or_placeholder:
  "((\<exists>r\<in>set (tasks db). sint (tasks_id r) = i) \<longrightarrow>
      (\<exists>k<length (tasks db).
         findById i db = Inr (TaskRow (tasks db ! k)) \<and> sint (tasks_id (tasks db ! k)) = i \<and>
         (\<forall>j<k. sint (tasks_id (tasks db ! j)) \<noteq> i))) \<and>
   (int4_range i \<and> (\<forall>r\<in>set (tasks db). sint (tasks_id r) \<noteq> i) \<longrightarrow>
      findById i db = Inr (Placeholder 0 ''Unknown'')) \<and>
   (\<not> int4_range i \<longrightarrow> findById i db = Inl NumericValueOutOfRange)"
proof (intro conjI impI)
  assume ex: "\<exists>r\<in>set (tasks db). sint (tasks_id r) = i"
  then have rng: "int4_range i"
    by auto
  from ex have "filter (\<lambda>r. sint (tasks_id r) = i) (tasks db) \<noteq> []"
    by (simp add: filter_empty_conv)
  then obtain y ys where sel: "filter (\<lambda>r. sint (tasks_id r) = i) (tasks db) = y # ys"
    by (cases "filter (\<lambda>r. sint (tasks_id r) = i) (tasks db)") auto
  from filter_first_index [OF sel] obtain k where
    "k < length (tasks db)" "tasks db ! k = y" "sint (tasks_id y) = i"
    "\<forall>j<k. sint (tasks_id (tasks db ! j)) \<noteq> i" by blast
  moreover have "findById i db = Inr (TaskRow y)"
    using rng by (simp add: findById_def select_tasks_by_id_def sel)
  ultimately show "\<exists>k<length (tasks db).
         findById i db = Inr (TaskRow (tasks db ! k)) \<and> sint (tasks_id (tasks db ! k)) = i \<and>
         (\<forall>j<k. sint (tasks_id (tasks db ! j)) \<noteq> i)" by blast
next
  assume "int4_range i \<and> (\<forall>r\<in>set (tasks db). sint (tasks_id r) \<noteq> i)"
  then have "int4_range i" and "filter (\<lambda>r. sint (tasks_id r) = i) (tasks db) = []"
    by (simp_all add: filter_empty_conv)
  then show "findById i db = Inr (Placeholder 0 ''Unknown'')"
    by (simp add: findById_def select_tasks_by_id_def)
next
  assume "\<not> int4_range i"
  then show "findById i db = Inl NumericValueOutOfRange"
    by (simp add: findById_def select_tasks_by_id_def)
qed

theorem findById_first_match_or_placeholder_witness:
  "(\<exists>r\<in>set (tasks example_db). sint (tasks_id r) = 2) \<and>
   findById 2 example_db = Inr (TaskRow \<lparr>tasks_id = 2, name = ''Review'', completed = Some True\<rparr>) \<and>
   int4_range 9 \<and> 9 \<notin> set (map (\<lambda>r. sint (tasks_id r)) (tasks example_db)) \<and>
   findById 9 example_db = Inr (Placeholder 0 ''Unknown'')"
  using findById_first_match_or_placeholder [of example_db 2]
    findById_first_match_or_placeholder [of example_db 9]
  by (simp add: example_db_def findById_def select_tasks_by_id_def)

text \<open>
  Claim C2 as it is stated, for every id, fails at an id that the column's type cannot
  hold: no task row has the id 2147483648, and \<^verbatim>\<open>findById(2147483648)\<close> raises where the
  claim has it return the placeholder.
\<close>

theorem findById_out_of_range_rejected:
  "2147483648 \<notin> set (map (\<lambda>r. sint (tasks_id r)) (tasks example_db)) \<and>
   findById 2147483648 example_db = Inl NumericValueOutOfRange \<and>
   findById 2147483648 example_db \<noteq> Inr (Placeholder 0 ''Unknown'')"
  by (simp add: example_db_def findById_def select_tasks_by_id_def)

text \<open>
  Claim C4. \<^verbatim>\<open>findAllNonCompletedTasks()\<close> returns exactly the task rows whose
  \<^verbatim>\<open>completed\<close> is false: every such row appears, as often as the table holds it, and no
  row with \<^verbatim>\<open>completed\<close> true appears. The statement is about which rows are returned and
  says nothing of their order.
\<close>

theorem findAllNonCompletedTasks_exact:
  "set (findAllNonCompletedTasks db) = {r \<in> set (tasks db). completed r = Some False} \<and>
   mset (findAllNonCompletedTasks db) =
     filter_mset (\<lambda>r. completed r = Some False) (mset (tasks db)) \<and>
   (\<forall>r\<in>set (findAllNonCompletedTasks db). completed r \<noteq> Some True)"
  by (auto simp: findAllNonCompletedTasks_def select_tasks_not_completed_def)

theorem findAllNonCompletedTasks_exact_witness:
  "findAllNonCompletedTasks example_db =
     [\<lparr>tasks_id = 1, name = ''Write report'', completed = Some False\<rparr>,
      \<lparr>tasks_id = 3, name = '''', completed = Some False\<rparr>]"
  using findAllNonCompletedTasks_exact [of example_db]
  by (simp add: example_db_def findAllNonCompletedTasks_def select_tasks_not_completed_def)

text \<open>
  Claim C5. For every id of an existing task, after \<^verbatim>\<open>completeById(id)\<close> has run, that
  task does not appear in the result of \<^verbatim>\<open>findAllNonCompletedTasks()\<close>: the call raises
  nothing, the task's row is in the table with \<^verbatim>\<open>completed\<close> true, and no row returned by
  the query has the task's id.
\<close>

theorem completeById_removes_from_non_completed:
  assumes "r \<in> set (tasks db)" and "sint (tasks_id r) = i"
  shows "fst (completeById i db) = Inr () \<and>
         r\<lparr>completed := Some True\<rparr> \<in> set (tasks (snd (completeById i db))) \<and>
         (\<forall>r'\<in>set (findAllNonCompletedTasks (snd (completeById i db))). sint (tasks_id r') \<noteq> i)"
proof -
  have rng: "int4_range i"
    using assms(2) by auto
  show ?thesis
    using assms
    by (auto simp: completeById_eq [OF rng] findAllNonCompletedTasks_def
        select_tasks_not_completed_def image_iff intro!: bexI [of _ r])
qed

theorem completeById_removes_from_non_completed_witness:
  "\<lparr>tasks_id = 1, name = ''Write report'', completed = Some False\<rparr> \<in> set (tasks example_db) \<and>
   fst (completeById 1 example_db) = Inr () \<and>
   findAllNonCompletedTasks (snd (completeById 1 example_db)) =
     [\<lparr>tasks_id = 3, name = '''', completed = Some False\<rparr>]"
  using completeById_removes_from_non_completed
    [of "\<lparr>tasks_id = 1, name = ''Write report'', completed = Some False\<rparr>" example_db 1]
  by (simp add: example_db_def completeById_eq findAllNonCompletedTasks_def
      select_tasks_not_completed_def)

text \<open>
  Claim C6, amended. For every id within the range of \<^verbatim>\<open>INTEGER\<close> that matches no task
  row, \<^verbatim>\<open>completeById(id)\<close> succeeds without raising an error and leaves the tasks table,
  and the rest of the database, as it was; the \<^verbatim>\<open>UPDATE\<close> reports zero rows.
\<close>

theorem completeById_unknown_id_no_change:
  assumes "int4_range i" and "\<forall>r\<in>set (tasks db). sint (tasks_id r) \<noteq> i"
  shows "completeById i db = (Inr (), db) \<and> update_tasks_completed i db = (Inr 0, db)"
proof -
  have "map (\<lambda>r. if sint (tasks_id r) = i then r\<lparr>completed := Some True\<rparr> else r) (tasks db)
      = tasks db"
    using assms(2) by (simp add: map_idI)
  moreover have "filter (\<lambda>r. sint (tasks_id r) = i) (tasks db) = []"
    using assms(2) by (simp add: filter_empty_conv)
  ultimately show ?thesis
    using assms(1) by (simp add: completeById_def update_tasks_completed_def)
qed

theorem completeById_unknown_id_no_change_witness:
  "int4_range 9 \<and> 9 \<notin> set (map (\<lambda>r. sint (tasks_id r)) (tasks example_db)) \<and>
   completeById 9 example_db = (Inr (), example_db) \<and>
   update_tasks_completed 9 example_db = (Inr 0, example_db)"
proof -
  have h: "\<forall>r\<in>set (tasks example_db). sint (tasks_id r) \<noteq> 9"
    by (simp add: example_db_def)
  have r: "int4_range 9"
    by simp
  from completeById_unknown_id_no_change [OF r h] h r show ?thesis
    by auto
qed

text \<open>
  Claim C6 as it is stated, for every id that matches no task row, fails at an id that
  the column's type cannot hold: no task row has the id 2147483648, and
  \<^verbatim>\<open>completeById(2147483648)\<close> raises, the database unchanged.
\<close>

theorem completeById_out_of_range_rejected:
  "2147483648 \<notin> set (map (\<lambda>r. sint (tasks_id r)) (tasks example_db)) \<and>
   completeById 2147483648 example_db = (Inl NumericValueOutOfRange, example_db) \<and>
   fst (completeById 2147483648 example_db) \<noteq> Inr ()"
  by (simp add: completeById_out_of_range) (simp add: example_db_def)

text \<open>
  Claim C10. \<^verbatim>\<open>completeById\<close> is idempotent: for every id and every database, running
  \<^verbatim>\<open>completeById(id)\<close> a second time right after the first gives the outcome of the
  first, the same database and the same return or error.
\<close>

theorem completeById_idempotent:
  "completeById i (snd (completeById i db)) = completeById i db"
proof (cases "int4_range i")
  case True
  then show ?thesis
    by (simp add: completeById_eq comp_def cong: if_cong)
next
  case False
  then show ?thesis
    by (simp add: completeById_out_of_range)
qed

text \<open>
  Claim C8, amended. For every name that holds no character U+0000, the empty name and a
  name already in the table among them, \<^verbatim>\<open>create(name)\<close> on a consistent database whose
  sequence of task ids has not run out inserts exactly one task row, whose name is the
  one given and whose \<^verbatim>\<open>completed\<close> is the schema's default false; it returns no value;
  and a following \<^verbatim>\<open>findAllNonCompletedTasks()\<close> contains that row, once. The row's id is
  the next value of the sequence, and nothing else of the database changes.
\<close>

theorem create_inserts_one_open_task:
  assumes "db_inv db" and "tasks_id_seq db < int4_max" and "CHR 0x00 \<notin> set n"
  shows "create n db =
           (Inr (), db\<lparr>tasks_id_seq := tasks_id_seq db + 1,
                       tasks := tasks db @
                         [\<lparr>tasks_id = word_of_int (tasks_id_seq db + 1), name = n,
                           completed = Some False\<rparr>]\<rparr>) \<and>
         sint (word_of_int (tasks_id_seq db + 1) :: int4) = tasks_id_seq db + 1 \<and>
         \<lparr>tasks_id = word_of_int (tasks_id_seq db + 1), name = n, completed = Some False\<rparr>
           \<in> set (findAllNonCompletedTasks (snd (create n db))) \<and>
         count (mset (findAllNonCompletedTasks (snd (create n db))))
             \<lparr>tasks_id = word_of_int (tasks_id_seq db + 1), name = n, completed = Some False\<rparr> = 1"
proof -
  let ?row = "\<lparr>tasks_id = word_of_int (tasks_id_seq db + 1), name = n, completed = Some False\<rparr>"
  have "tasks_id ?row \<notin> set (map tasks_id (tasks db))"
    using next_tasks_id_fresh [OF assms(1,2)] by simp
  then have fresh: "?row \<notin> set (tasks db)"
    by force
  have "int4_range (tasks_id_seq db + 1)"
    using assms(1,2) by (simp add: db_inv_def int4_range_def int4_min_def int4_max_def)
  from sint_int4_of_int [OF this] fresh show ?thesis
    by (simp add: create_eq [OF assms] findAllNonCompletedTasks_def
        select_tasks_not_completed_def count_eq_zero_iff)
qed

theorem create_inserts_one_open_task_witness:
  "db_inv example_db \<and> tasks_id_seq example_db < int4_max \<and> CHR 0x00 \<notin> set '''' \<and>
   create '''' example_db =
     (Inr (), example_db\<lparr>tasks_id_seq := 4,
        tasks := tasks example_db @ [\<lparr>tasks_id = 4, name = '''', completed = Some False\<rparr>]\<rparr>) \<and>
   findAllNonCompletedTasks (snd (create '''' example_db)) =
     [\<lparr>tasks_id = 1, name = ''Write report'', completed = Some False\<rparr>,
      \<lparr>tasks_id = 3, name = '''', completed = Some False\<rparr>,
      \<lparr>tasks_id = 4, name = '''', completed = Some False\<rparr>]"
proof -
  have s: "tasks_id_seq example_db = 3"
    by (simp add: example_db_def)
  have lt: "tasks_id_seq example_db < int4_max"
    by (simp add: s int4_max_def)
  have n: "CHR 0x00 \<notin> set ''''"
    by simp
  from create_inserts_one_open_task [OF db_inv_example_db lt n]
  have c: "create '''' example_db =
     (Inr (), example_db\<lparr>tasks_id_seq := 4,
        tasks := tasks example_db @ [\<lparr>tasks_id = 4, name = '''', completed = Some False\<rparr>]\<rparr>)"
    by (simp add: s)
  from lt show ?thesis
    by (simp add: db_inv_example_db c findAllNonCompletedTasks_def select_tasks_not_completed_def)
      (simp add: example_db_def)
qed

text \<open>
  Claim C8 as it is stated, for every name, fails at a name that holds U+0000, which
  the database refuses as text: \<^verbatim>\<open>create\<close> raises, no row is stored and
  \<^verbatim>\<open>findAllNonCompletedTasks()\<close> is empty. It fails, too, once the sequence has handed out
  its last id: on the database left by 2147483647 calls of \<^verbatim>\<open>create\<close> the next call
  raises and stores nothing.
\<close>

theorem create_refused:
  "create [CHR 0x00] initial_schema = (Inl CharacterNotInRepertoire, initial_schema) \<and>
   findAllNonCompletedTasks (snd (create [CHR 0x00] initial_schema)) = [] \<and>
   reachable tasks_id_seq_spent \<and>
   create ''Write report'' tasks_id_seq_spent =
     (Inl SequenceGeneratorLimitExceeded, tasks_id_seq_spent)"
proof -
  have "create ''Write report'' tasks_id_seq_spent =
     (Inl SequenceGeneratorLimitExceeded, tasks_id_seq_spent)"
    using tasks_id_seq_spent_facts by (intro create_spent) simp_all
  then show ?thesis
    using tasks_id_seq_spent_facts
    by (simp add: create_refused_text findAllNonCompletedTasks_def
        select_tasks_not_completed_def initial_schema_def)
qed

text \<open>
  Claim C9. For every id, \<^verbatim>\<open>completeById(id)\<close> changes only the \<^verbatim>\<open>completed\<close> field, to
  true, of the task rows with that id: the table keeps its length, every row keeps its
  id and name, a row with another id is unchanged altogether, and the work entries and
  both sequences are unchanged. The call returns normally for an id within the range of
  \<^verbatim>\<open>INTEGER\<close> and raises, with the database as it was, for any other. No operation of the
  services deletes a task row: \<^verbatim>\<open>completeById\<close> keeps every row in its place, \<^verbatim>\<open>create\<close>
  only appends to the table, \<^verbatim>\<open>createWorkEntry\<close> and \<^verbatim>\<open>finishWorkEntry\<close> leave it as it is,
  whether they succeed or fail, and the four functions that only select write nothing.
\<close>

theorem completeById_frame:
  "(int4_range i \<longrightarrow> fst (completeById i db) = Inr ()) \<and>
   (\<not> int4_range i \<longrightarrow> completeById i db = (Inl NumericValueOutOfRange, db)) \<and>
   length (tasks (snd (completeById i db))) = length (tasks db) \<and>
   (\<forall>k<length (tasks db).
      tasks_id (tasks (snd (completeById i db)) ! k) = tasks_id (tasks db ! k) \<and>
      name (tasks (snd (completeById i db)) ! k) = name (tasks db ! k) \<and>
      (sint (tasks_id (tasks db ! k)) = i \<longrightarrow>
         tasks (snd (completeById i db)) ! k = (tasks db ! k)\<lparr>completed := Some True\<rparr>) \<and>
      (sint (tasks_id (tasks db ! k)) \<noteq> i \<longrightarrow>
         tasks (snd (completeById i db)) ! k = tasks db ! k)) \<and>
   work_entries (snd (completeById i db)) = work_entries db \<and>
   tasks_id_seq (snd (completeById i db)) = tasks_id_seq db \<and>
   work_entries_id_seq (snd (completeById i db)) = work_entries_id_seq db \<and>
   prefix (tasks db) (tasks (snd (create n db))) \<and>
   tasks (snd (createWorkEntry t now db)) = tasks db \<and>
   tasks (snd (finishWorkEntry j now db)) = tasks db"
proof -
  have "prefix (tasks db) (tasks (snd (create n db)))"
    by (simp add: create_def insert_tasks_def Let_def)
  moreover have "tasks (snd (createWorkEntry t now db)) = tasks db"
    by (simp add: createWorkEntry_def insert_work_entries_def Let_def)
  moreover have "tasks (snd (finishWorkEntry j now db)) = tasks db"
    by (simp add: finishWorkEntry_def update_work_entries_finished_def)
  ultimately show ?thesis
  proof (cases "int4_range i")
    case True
    assume "prefix (tasks db) (tasks (snd (create n db)))"
      "tasks (snd (createWorkEntry t now db)) = tasks db"
      "tasks (snd (finishWorkEntry j now db)) = tasks db"
    with True show ?thesis
      by (simp add: completeById_eq)
  next
    case False
    assume "prefix (tasks db) (tasks (snd (create n db)))"
      "tasks (snd (createWorkEntry t now db)) = tasks db"
      "tasks (snd (finishWorkEntry j now db)) = tasks db"
    moreover have "\<forall>k<length (tasks db). sint (tasks_id (tasks db ! k)) \<noteq> i"
      using False by auto
    ultimately show ?thesis
      using False by (simp add: completeById_out_of_range)
  qed
qed

theorem completeById_frame_witness:
  "completeById 1 example_db =
     (Inr (), example_db\<lparr>tasks :=
        [\<lparr>tasks_id = 1, name = ''Write report'', completed = Some True\<rparr>,
         \<lparr>tasks_id = 2, name = ''Review'', completed = Some True\<rparr>,
         \<lparr>tasks_id = 3, name = '''', completed = Some False\<rparr>]\<rparr>) \<and>
   completeById 2147483648 example_db = (Inl NumericValueOutOfRange, example_db) \<and>
   length (tasks (snd (create ''Review'' example_db))) = 4"
proof -
  have lt: "tasks_id_seq example_db < int4_max"
    by (simp add: example_db_def int4_max_def)
  have n: "CHR 0x00 \<notin> set ''Review''"
    by simp
  show ?thesis
    using completeById_frame [of 1 example_db "''Review''" 1 0 1]
      completeById_frame [of 2147483648 example_db "''Review''" 1 0 1]
    by (simp add: completeById_eq create_eq [OF db_inv_example_db lt n])
      (simp add: example_db_def)
qed

section \<open>workEntryService: the claims\<close>

text \<open>
  Claim C1, amended. For every task id within the range of \<^verbatim>\<open>INTEGER\<close>,
  \<^verbatim>\<open>calculateTotalTime(taskId)\<close> returns the sum of \<^verbatim>\<open>finished_on - started_on\<close> over
  exactly the work entries whose \<^verbatim>\<open>task_id\<close> is the given one and whose \<^verbatim>\<open>finished_on\<close> is
  not NULL, and 0 when there is no such entry or the sum is falsy. A closed entry whose
  \<^verbatim>\<open>started_on\<close> is NULL has no difference to add and counts for nothing, as in \<^verbatim>\<open>SUM\<close>;
  where every entry has its \<^verbatim>\<open>started_on\<close>, which is how \<^verbatim>\<open>createWorkEntry\<close> writes them,
  the sum is that of the plain differences.
\<close>

theorem calculateTotalTime_sums_closed_entries:
  assumes "int4_range t"
  shows "calculateTotalTime t db =
     Inr (\<Sum>e\<leftarrow>filter (\<lambda>e. map_option sint (task_id e) = Some t \<and> finished_on e \<noteq> None)
              (work_entries db).
        case (finished_on e, started_on e) of
          (Some f, Some s) \<Rightarrow> f - s
        | _ \<Rightarrow> 0) \<and>
   ((\<forall>e\<in>set (work_entries db). started_on e \<noteq> None) \<longrightarrow>
      calculateTotalTime t db =
        Inr (\<Sum>e\<leftarrow>filter (\<lambda>e. map_option sint (task_id e) = Some t \<and> finished_on e \<noteq> None)
                 (work_entries db).
           the (finished_on e) - the (started_on e))) \<and>
   (filter (\<lambda>e. map_option sint (task_id e) = Some t \<and> finished_on e \<noteq> None)
      (work_entries db) = [] \<longrightarrow>
      calculateTotalTime t db = Inr 0)"
proof (intro conjI impI)
  show "calculateTotalTime t db =
     Inr (\<Sum>e\<leftarrow>filter (\<lambda>e. map_option sint (task_id e) = Some t \<and> finished_on e \<noteq> None)
              (work_entries db).
        case (finished_on e, started_on e) of
          (Some f, Some s) \<Rightarrow> f - s
        | _ \<Rightarrow> 0)"
    unfolding calculateTotalTime_eq [OF assms]
    by (intro arg_cong [where f = Inr] arg_cong [where f = sum_list] map_cong)
      (auto simp: timestamptz_minus_def split: option.splits)
next
  assume "\<forall>e\<in>set (work_entries db). started_on e \<noteq> None"
  then show "calculateTotalTime t db =
        Inr (\<Sum>e\<leftarrow>filter (\<lambda>e. map_option sint (task_id e) = Some t \<and> finished_on e \<noteq> None)
                 (work_entries db).
           the (finished_on e) - the (started_on e))"
    unfolding calculateTotalTime_eq [OF assms]
    by (intro arg_cong [where f = Inr] arg_cong [where f = sum_list] map_cong)
      (auto simp: timestamptz_minus_def split: option.splits)
next
  assume "filter (\<lambda>e. map_option sint (task_id e) = Some t \<and> finished_on e \<noteq> None)
      (work_entries db) = []"
  then show "calculateTotalTime t db = Inr 0"
    by (simp add: calculateTotalTime_eq [OF assms])
qed

theorem calculateTotalTime_sums_closed_entries_witness:
  "int4_range 1 \<and> int4_range 2 \<and> int4_range 3 \<and>
   list_all (\<lambda>e. started_on e \<noteq> None) (work_entries example_db) \<and>
   calculateTotalTime 1 example_db = Inr ((160 - 100) + (210 - 200)) \<and>
   calculateTotalTime 2 example_db = Inr (180 - 150) \<and>
   filter (\<lambda>e. map_option sint (task_id e) = Some 3 \<and> finished_on e \<noteq> None)
     (work_entries example_db) = [] \<and>
   calculateTotalTime 3 example_db = Inr 0"
  using calculateTotalTime_sums_closed_entries [of 1 example_db]
    calculateTotalTime_sums_closed_entries [of 2 example_db]
    calculateTotalTime_sums_closed_entries [of 3 example_db]
  by (simp add: example_db_def)

text \<open>
  Claim C1 as it is stated, for every task id, fails at a task id that the column's type
  cannot hold: no work entry has the task id 2147483648, and
  \<^verbatim>\<open>calculateTotalTime(2147483648)\<close> raises where the claim has it return 0.
\<close>

theorem calculateTotalTime_out_of_range_rejected:
  "filter (\<lambda>e. map_option sint (task_id e) = Some 2147483648 \<and> finished_on e \<noteq> None)
     (work_entries example_db) = [] \<and>
   calculateTotalTime 2147483648 example_db = Inl NumericValueOutOfRange \<and>
   calculateTotalTime 2147483648 example_db \<noteq> Inr 0"
  by (simp add: calculateTotalTime_def select_total_time_def) (simp add: example_db_def)

text \<open>
  Claim C3, amended. For every work entry id that belongs to a task with no other open
  entry (no other row of the task has \<^verbatim>\<open>finished_on\<close> NULL), after \<^verbatim>\<open>finishWorkEntry(id)\<close>
  has run, \<^verbatim>\<open>findCurrentWorkEntry\<close> of the entry's task returns \<^verbatim>\<open>false\<close>: no row of that
  task with \<^verbatim>\<open>finished_on\<close> NULL remains.
\<close>

theorem finishWorkEntry_leaves_no_current_entry:
  assumes "e \<in> set (work_entries db)" and "sint (work_entries_id e) = i"
    and "map_option sint (task_id e) = Some t"
    and "\<forall>e'\<in>set (work_entries db).
           map_option sint (task_id e') = Some t \<and> finished_on e' = None \<longrightarrow>
             sint (work_entries_id e') = i"
  shows "fst (finishWorkEntry i now db) = Inr () \<and>
         findCurrentWorkEntry t (snd (finishWorkEntry i now db)) = Inr JsFalse"
proof -
  have i: "int4_range i"
    using assms(2) by auto
  have t: "int4_range t"
    using assms(3) by auto
  have "filter (\<lambda>e. map_option sint (task_id e) = Some t \<and> finished_on e = None)
          (map (\<lambda>e. if sint (work_entries_id e) = i then e\<lparr>finished_on := Some now\<rparr> else e)
            (work_entries db)) = []"
    using assms(4) by (auto simp: filter_empty_conv)
  with t show ?thesis
    by (simp add: finishWorkEntry_eq [OF i] findCurrentWorkEntry_def
        select_work_entries_current_def)
qed

theorem finishWorkEntry_leaves_no_current_entry_witness:
  "\<lparr>work_entries_id = 4, task_id = Some 1, started_on = Some 300, finished_on = None\<rparr>
     \<in> set (work_entries example_db) \<and>
   findCurrentWorkEntry 1 example_db =
     Inr (WorkEntryRow \<lparr>work_entries_id = 4, task_id = Some 1, started_on = Some 300,
       finished_on = None\<rparr>) \<and>
   fst (finishWorkEntry 4 400 example_db) = Inr () \<and>
   findCurrentWorkEntry 1 (snd (finishWorkEntry 4 400 example_db)) = Inr JsFalse"
proof -
  let ?e = "\<lparr>work_entries_id = 4, task_id = Some 1, started_on = Some 300, finished_on = None\<rparr>"
  have h1: "?e \<in> set (work_entries example_db)"
    by (simp add: example_db_def)
  have h2: "sint (work_entries_id ?e) = 4"
    by simp
  have h3: "map_option sint (task_id ?e) = Some 1"
    by simp
  have h4: "\<forall>e'\<in>set (work_entries example_db).
      map_option sint (task_id e') = Some 1 \<and> finished_on e' = None \<longrightarrow>
        sint (work_entries_id e') = 4"
    by (simp add: example_db_def)
  have cur: "findCurrentWorkEntry 1 example_db = Inr (WorkEntryRow ?e)"
    by (simp add: example_db_def findCurrentWorkEntry_def select_work_entries_current_def)
  from finishWorkEntry_leaves_no_current_entry [OF h1 h2 h3 h4, of 400] h1 cur
  show ?thesis by simp
qed

text \<open>
  Claim C3 as it is stated, for every work entry id that belongs to a task, fails where
  the task has a second open entry, which nothing in the schema or the services rules
  out: after \<^verbatim>\<open>create\<close> and two calls of \<^verbatim>\<open>createWorkEntry(1)\<close>, entry 1 belongs to task 1,
  and after \<^verbatim>\<open>finishWorkEntry(1)\<close> the call \<^verbatim>\<open>findCurrentWorkEntry(1)\<close> returns entry 2.
\<close>

theorem finishWorkEntry_other_entry_still_open:
  "reachable two_open_entries \<and>
   work_entries two_open_entries =
     [\<lparr>work_entries_id = 1, task_id = Some 1, started_on = Some 100, finished_on = None\<rparr>,
      \<lparr>work_entries_id = 2, task_id = Some 1, started_on = Some 200, finished_on = None\<rparr>] \<and>
   fst (finishWorkEntry 1 300 two_open_entries) = Inr () \<and>
   findCurrentWorkEntry 1 (snd (finishWorkEntry 1 300 two_open_entries)) =
     Inr (WorkEntryRow \<lparr>work_entries_id = 2, task_id = Some 1, started_on = Some 200,
       finished_on = None\<rparr>) \<and>
   findCurrentWorkEntry 1 (snd (finishWorkEntry 1 300 two_open_entries)) \<noteq> Inr JsFalse"
  by (simp add: reachable_two_open_entries)
    (simp add: two_open_entries_eq finishWorkEntry_eq findCurrentWorkEntry_def
      select_work_entries_current_def)

text \<open>
  Claim C7, amended. For every task id that is the id of a task row of a consistent
  database whose sequence of work entry ids has not run out, \<^verbatim>\<open>createWorkEntry(taskId)\<close>
  inserts one work entry with that \<^verbatim>\<open>task_id\<close>, with \<^verbatim>\<open>started_on\<close> the current time and
  \<^verbatim>\<open>finished_on\<close> NULL, and changes nothing else but the sequence; a following
  \<^verbatim>\<open>findCurrentWorkEntry(taskId)\<close> returns a row of that task with \<^verbatim>\<open>finished_on\<close> NULL.
\<close>

theorem createWorkEntry_opens_entry:
  assumes "db_inv db" and "work_entries_id_seq db < int4_max"
    and "taskId \<in> set (map (\<lambda>r. sint (tasks_id r)) (tasks db))"
  shows "createWorkEntry taskId now db =
           (Inr (), db\<lparr>work_entries_id_seq := work_entries_id_seq db + 1,
              work_entries := work_entries db @
                [\<lparr>work_entries_id = word_of_int (work_entries_id_seq db + 1),
                  task_id = Some (word_of_int taskId),
                  started_on = Some now, finished_on = None\<rparr>]\<rparr>) \<and>
         sint (word_of_int taskId :: int4) = taskId \<and>
         (\<exists>e. findCurrentWorkEntry taskId (snd (createWorkEntry taskId now db)) =
                Inr (WorkEntryRow e) \<and>
              e \<in> set (work_entries (snd (createWorkEntry taskId now db))) \<and>
              map_option sint (task_id e) = Some taskId \<and> finished_on e = None)"
proof -
  let ?new = "\<lparr>work_entries_id = word_of_int (work_entries_id_seq db + 1),
                  task_id = Some (word_of_int taskId),
                  started_on = Some now, finished_on = None\<rparr>"
  let ?P = "\<lambda>e. map_option sint (task_id e) = Some taskId \<and> finished_on e = None"
  have rng: "int4_range taskId"
    using assms(3) by auto
  note sint_task = sint_int4_of_int [OF rng]
  have eq: "createWorkEntry taskId now db =
           (Inr (), db\<lparr>work_entries_id_seq := work_entries_id_seq db + 1,
              work_entries := work_entries db @ [?new]\<rparr>)"
    by (rule createWorkEntry_eq [OF assms])
  have "filter ?P (work_entries db @ [?new]) \<noteq> []"
    using sint_task by simp
  then obtain y ys where sel: "filter ?P (work_entries db @ [?new]) = y # ys"
    by (cases "filter ?P (work_entries db @ [?new])") auto
  from filter_first_index [OF sel] have "?P y" and "y \<in> set (work_entries db @ [?new])"
    by (metis, metis nth_mem)
  with sel rng have "findCurrentWorkEntry taskId (snd (createWorkEntry taskId now db)) =
        Inr (WorkEntryRow y) \<and>
      y \<in> set (work_entries (snd (createWorkEntry taskId now db))) \<and>
      map_option sint (task_id y) = Some taskId \<and> finished_on y = None"
    by (simp add: eq findCurrentWorkEntry_def select_work_entries_current_def)
  then show ?thesis using eq sint_task by blast
qed

theorem createWorkEntry_opens_entry_witness:
  "db_inv one_task \<and> work_entries_id_seq one_task < int4_max \<and>
   1 \<in> set (map (\<lambda>r. sint (tasks_id r)) (tasks one_task)) \<and>
   createWorkEntry 1 100 one_task =
     (Inr (), one_task\<lparr>work_entries_id_seq := 1,
        work_entries :=
          [\<lparr>work_entries_id = 1, task_id = Some 1, started_on = Some 100, finished_on = None\<rparr>]\<rparr>) \<and>
   findCurrentWorkEntry 1 (snd (createWorkEntry 1 100 one_task)) =
     Inr (WorkEntryRow \<lparr>work_entries_id = 1, task_id = Some 1, started_on = Some 100,
       finished_on = None\<rparr>)"
proof -
  have t: "1 \<in> set (map (\<lambda>r. sint (tasks_id r)) (tasks one_task))"
    by (simp add: one_task_eq)
  have lt: "work_entries_id_seq one_task < int4_max"
    by (simp add: one_task_eq int4_max_def)
  from createWorkEntry_opens_entry [OF db_inv_one_task lt t, of 100]
  have c: "createWorkEntry 1 100 one_task =
     (Inr (), one_task\<lparr>work_entries_id_seq := 1,
        work_entries :=
          [\<lparr>work_entries_id = 1, task_id = Some 1, started_on = Some 100, finished_on = None\<rparr>]\<rparr>)"
    by (simp add: one_task_eq)
  from db_inv_one_task lt t show ?thesis
    by (simp add: c findCurrentWorkEntry_def select_work_entries_current_def)
qed

text \<open>
  Claim C7 as it is stated, for every task id, fails at a task id that no task row has:
  \<^verbatim>\<open>task_id\<close> references \<^verbatim>\<open>tasks(id)\<close>, the \<^verbatim>\<open>INSERT\<close> is refused, \<^verbatim>\<open>createWorkEntry\<close> passes the
  error on, no row is stored and \<^verbatim>\<open>findCurrentWorkEntry\<close> returns \<^verbatim>\<open>false\<close>. Here the only
  task has id 1 and the call is \<^verbatim>\<open>createWorkEntry(2)\<close>. It fails, too, for the task that
  is there once the sequence has handed out its last id: after 2147483647 such refused
  calls, \<^verbatim>\<open>createWorkEntry(1)\<close> raises and stores nothing.
\<close>

theorem createWorkEntry_refused:
  "reachable one_task \<and>
   map tasks_id (tasks one_task) = [1] \<and>
   createWorkEntry 2 100 one_task =
     (Inl ForeignKeyViolation, one_task\<lparr>work_entries_id_seq := 1\<rparr>) \<and>
   work_entries (snd (createWorkEntry 2 100 one_task)) = [] \<and>
   findCurrentWorkEntry 2 (snd (createWorkEntry 2 100 one_task)) = Inr JsFalse \<and>
   reachable work_entries_id_seq_spent \<and>
   map tasks_id (tasks work_entries_id_seq_spent) = [1] \<and>
   createWorkEntry 1 100 work_entries_id_seq_spent =
     (Inl SequenceGeneratorLimitExceeded, work_entries_id_seq_spent) \<and>
   findCurrentWorkEntry 1 (snd (createWorkEntry 1 100 work_entries_id_seq_spent)) = Inr JsFalse"
proof -
  have "createWorkEntry 1 100 work_entries_id_seq_spent =
     (Inl SequenceGeneratorLimitExceeded, work_entries_id_seq_spent)"
    by (intro createWorkEntry_spent) (simp_all add: work_entries_id_seq_spent_eq int4_max_def)
  then show ?thesis
    by (simp add: reachable_one_task reachable_work_entries_id_seq_spent)
      (simp add: work_entries_id_seq_spent_eq one_task_eq createWorkEntry_def
        insert_work_entries_def Let_def findCurrentWorkEntry_def
        select_work_entries_current_def int4_max_def)
qed

end
